theory Spec2Isabelle
  imports Complex_Main
begin

section \<open>The mock server's in-memory database\<close>

text \<open>
  The resource service is the Express application of the mock server. Its state is two
  module-level variables: the array \<^verbatim>\<open>conversations\<close> and the object \<^verbatim>\<open>tokenStore\<close>.
  Every handler is modelled as a function from the state it reads (and the request) to
  the state it leaves and the reply it sends.

  A conversation object has the eleven fields of the seed data, with the types the seed
  data gives them. \<^verbatim>\<open>agentId\<close> is the one field the server itself sets to \<^verbatim>\<open>null\<close>.

  A string is the sequence of the UTF-8 bytes of the JavaScript string, so a character
  beyond ASCII is two or three bytes. Equality, \<^verbatim>\<open>includes\<close> and \<^verbatim>\<open>replace\<close> on
  well-formed strings are the same on the bytes as on the characters.

  JavaScript's numbers are doubles. The model computes with integers, and a double holds
  an integer exactly when it is a safe integer, at most \<open>2^53 - 1\<close> in absolute value. What
  is proved about the value of a page, a limit or a slice index is proved for safe
  integers.
\<close>

record message =
  m_role :: string
  m_text :: string
  m_timestamp :: "string option"

record conversation =
  c_id :: string
  c_title :: string
  c_customerName :: string
  c_agentName :: string
  c_agentId :: "string option"
  c_sentiment :: string
  c_status :: string
  c_aiScore :: int
  c_duration :: int
  c_createdAt :: string
  c_messages :: "message list"

text \<open>
  \<^verbatim>\<open>req.body\<close> of the two write endpoints: a JSON object in which every key may be
  missing (\<open>None\<close>). For \<^verbatim>\<open>agentId\<close> a present \<^verbatim>\<open>null\<close> is \<open>Some None\<close>. Keys
  other than the eleven of a conversation are read by no handler and are left out.
\<close>

record body =
  b_id :: "string option"
  b_title :: "string option"
  b_customerName :: "string option"
  b_agentName :: "string option"
  b_agentId :: "string option option"
  b_sentiment :: "string option"
  b_status :: "string option"
  b_aiScore :: "int option"
  b_duration :: "int option"
  b_createdAt :: "string option"
  b_messages :: "message list option"

definition emptyBody :: body where
  "emptyBody = \<lparr> b_id = None, b_title = None, b_customerName = None, b_agentName = None,
     b_agentId = None, b_sentiment = None, b_status = None, b_aiScore = None,
     b_duration = None, b_createdAt = None, b_messages = None \<rparr>"

subsection \<open>The seed data\<close>

text \<open>
  The Turkish letters of the seed data that lie beyond ASCII, each as its UTF-8 bytes:
  c with cedilla (U+00E7, U+00C7), dotless i (U+0131), capital I with dot above
  (U+0130), capital O with diaeresis (U+00D6), s with cedilla (U+015F, U+015E) and u
  with diaeresis (U+00FC, U+00DC).
\<close>

definition smallCCedilla :: string where
  "smallCCedilla = [CHR 0xC3, CHR 0xA7]"

definition capitalCCedilla :: string where
  "capitalCCedilla = [CHR 0xC3, CHR 0x87]"

definition smallDotlessI :: string where
  "smallDotlessI = [CHR 0xC4, CHR 0xB1]"

definition capitalDottedI :: string where
  "capitalDottedI = [CHR 0xC4, CHR 0xB0]"

definition capitalODiaeresis :: string where
  "capitalODiaeresis = [CHR 0xC3, CHR 0x96]"

definition smallSCedilla :: string where
  "smallSCedilla = [CHR 0xC5, CHR 0x9F]"

definition capitalSCedilla :: string where
  "capitalSCedilla = [CHR 0xC5, CHR 0x9E]"

definition smallUDiaeresis :: string where
  "smallUDiaeresis = [CHR 0xC3, CHR 0xBC]"

definition capitalUDiaeresis :: string where
  "capitalUDiaeresis = [CHR 0xC3, CHR 0x9C]"

text \<open>The five conversations the server starts with, in their order.\<close>

definition seedConversations :: "conversation list" where
  "seedConversations =
     [\<lparr> c_id = ''conv-001'',
        c_title = ''M'' @ smallUDiaeresis @ smallSCedilla @ ''teri '' @ capitalSCedilla @
          ''ikayeti - Kargo Gecikmesi'',
        c_customerName = ''Ahmet Y'' @ smallDotlessI @ ''lmaz'',
        c_agentName = ''Ay'' @ smallSCedilla @ ''e Demir'',
        c_agentId = Some ''agent-001'', c_sentiment = ''negative'', c_status = ''resolved'',
        c_aiScore = 42, c_duration = 325, c_createdAt = ''2024-01-15T09:30:00Z'',
        c_messages =
          [\<lparr> m_role = ''customer'',
             m_text = ''Sipari'' @ smallSCedilla @ ''im 5 g'' @ smallUDiaeresis @ ''nd'' @
               smallUDiaeresis @ ''r gelmedi!'',
             m_timestamp = None \<rparr>,
           \<lparr> m_role = ''agent'',
             m_text = capitalODiaeresis @ ''z'' @ smallUDiaeresis @
               ''r dilerim, hemen kontrol ediyorum.'',
             m_timestamp = None \<rparr>] \<rparr>,
      \<lparr> c_id = ''conv-002'',
        c_title = capitalUDiaeresis @ ''r'' @ smallUDiaeresis @ ''n Bilgisi Talebi'',
        c_customerName = ''Fatma Kaya'',
        c_agentName = ''Mehmet '' @ capitalODiaeresis @ ''z'',
        c_agentId = Some ''agent-002'', c_sentiment = ''positive'', c_status = ''completed'',
        c_aiScore = 89, c_duration = 180, c_createdAt = ''2024-01-15T10:15:00Z'',
        c_messages =
          [\<lparr> m_role = ''customer'',
             m_text = ''Bu '' @ smallUDiaeresis @ ''r'' @ smallUDiaeresis @ ''n'' @
               smallUDiaeresis @ ''n garantisi var m'' @ smallDotlessI @ ''?'',
             m_timestamp = None \<rparr>,
           \<lparr> m_role = ''agent'',
             m_text = ''2 y'' @ smallDotlessI @ ''l garantisi bulunmaktad'' @ smallDotlessI @
               ''r.'',
             m_timestamp = None \<rparr>] \<rparr>,
      \<lparr> c_id = ''conv-003'',
        c_title = capitalDottedI @ ''ade Talebi'',
        c_customerName = ''Ali Veli'',
        c_agentName = ''Ay'' @ smallSCedilla @ ''e Demir'',
        c_agentId = Some ''agent-001'', c_sentiment = ''neutral'', c_status = ''pending'',
        c_aiScore = 65, c_duration = 420, c_createdAt = ''2024-01-15T11:00:00Z'',
        c_messages =
          [\<lparr> m_role = ''customer'',
             m_text = capitalUDiaeresis @ ''r'' @ smallUDiaeresis @ ''n'' @ smallUDiaeresis @
               '' iade etmek istiyorum.'',
             m_timestamp = None \<rparr>,
           \<lparr> m_role = ''agent'',
             m_text = capitalDottedI @ ''ade talebinizi olu'' @ smallSCedilla @
               ''turuyorum.'',
             m_timestamp = None \<rparr>] \<rparr>,
      \<lparr> c_id = ''conv-004'',
        c_title = ''Teknik Destek'',
        c_customerName = ''Zeynep Aksoy'',
        c_agentName = ''Can Y'' @ smallDotlessI @ ''ld'' @ smallDotlessI @ ''z'',
        c_agentId = Some ''agent-003'', c_sentiment = ''positive'', c_status = ''completed'',
        c_aiScore = 95, c_duration = 240, c_createdAt = ''2024-01-15T14:30:00Z'',
        c_messages =
          [\<lparr> m_role = ''customer'',
             m_text = ''Cihaz'' @ smallDotlessI @ ''m a'' @ smallCCedilla @ smallDotlessI @
               ''lm'' @ smallDotlessI @ ''yor.'',
             m_timestamp = None \<rparr>,
           \<lparr> m_role = ''agent'',
             m_text = ''Reset tu'' @ smallSCedilla @ ''una 10 saniye bas'' @ smallDotlessI @
               ''l'' @ smallDotlessI @ '' tutun.'',
             m_timestamp = None \<rparr>] \<rparr>,
      \<lparr> c_id = ''conv-005'',
        c_title = ''Fatura Sorunu'',
        c_customerName = ''Murat '' @ capitalCCedilla @ ''elik'',
        c_agentName = ''Mehmet '' @ capitalODiaeresis @ ''z'',
        c_agentId = Some ''agent-002'', c_sentiment = ''negative'', c_status = ''escalated'',
        c_aiScore = 28, c_duration = 600, c_createdAt = ''2024-01-15T16:00:00Z'',
        c_messages =
          [\<lparr> m_role = ''customer'',
             m_text = ''Faturamda yanl'' @ smallDotlessI @ smallSCedilla @ '' tutar var!'',
             m_timestamp = None \<rparr>,
           \<lparr> m_role = ''agent'',
             m_text = ''Durumu '' @ smallUDiaeresis @ ''st birime aktar'' @ smallDotlessI @
               ''yorum.'',
             m_timestamp = None \<rparr>] \<rparr>]"

subsection \<open>Replies\<close>

record pagination =
  p_total :: nat
  p_page :: int
  p_limit :: int
  p_totalPages :: int

datatype payload =
    ErrorJson string
  | FailureJson string
  | SuccessJson
  | AuthJson string string string string string
  | ConversationJson conversation
  | ListJson "conversation list" pagination

text \<open>
  \<open>ErrorJson e\<close> is \<^verbatim>\<open>{error: e}\<close>, \<open>FailureJson e\<close> is \<^verbatim>\<open>{success: false, error: e}\<close>,
  \<open>SuccessJson\<close> is \<^verbatim>\<open>{success: true}\<close>, and \<open>AuthJson token refreshToken email name role\<close>
  is the reply of a login or a refresh. A reply is its status code (200 unless
  \<^verbatim>\<open>res.status\<close> sets another) and its JSON payload.
\<close>

datatype reply = Reply nat payload

subsection \<open>The operator \<^verbatim>\<open>||\<close> on the values a body field can hold\<close>

text \<open>
  \<^verbatim>\<open>a || b\<close> is \<^verbatim>\<open>a\<close> when \<^verbatim>\<open>a\<close> is truthy and \<^verbatim>\<open>b\<close> otherwise. A missing key
  (\<^verbatim>\<open>undefined\<close>), the empty string, the number 0 and NaN are falsy; every array is
  truthy. For a number, \<open>None\<close> is \<^verbatim>\<open>undefined\<close> or NaN.
\<close>

definition or_string :: "string option \<Rightarrow> string \<Rightarrow> string" where
  "or_string v d = (case v of None \<Rightarrow> d | Some s \<Rightarrow> if s = [] then d else s)"

definition or_number :: "int option \<Rightarrow> int \<Rightarrow> int" where
  "or_number v d = (case v of None \<Rightarrow> d | Some n \<Rightarrow> if n = 0 then d else n)"

definition or_array :: "'a list option \<Rightarrow> 'a list \<Rightarrow> 'a list" where
  "or_array v d = (case v of None \<Rightarrow> d | Some xs \<Rightarrow> xs)"

definition or_null :: "string option option \<Rightarrow> string option" where
  "or_null v = (case v of Some (Some s) \<Rightarrow> if s = [] then None else Some s | _ \<Rightarrow> None)"

section \<open>Creating a conversation\<close>

text \<open>
  \<^verbatim>\<open>generateId\<close> draws its suffix from \<^verbatim>\<open>Math.random\<close>; the drawn suffix is the
  argument \<open>rnd\<close>. \<open>now\<close> is the value of \<^verbatim>\<open>new Date().toISOString()\<close>.
\<close>

definition generateId :: "string \<Rightarrow> string" where
  "generateId rnd = ''conv-'' @ rnd"

definition newConversation :: "string \<Rightarrow> string \<Rightarrow> body \<Rightarrow> conversation" where
  "newConversation rnd now b =
     \<lparr> c_id = generateId rnd,
       c_title = or_string (b_title b) ''New Conversation'',
       c_customerName = or_string (b_customerName b) ''Unknown Customer'',
       c_agentName = or_string (b_agentName b) ''Unassigned'',
       c_agentId = or_null (b_agentId b),
       c_sentiment = or_string (b_sentiment b) ''neutral'',
       c_status = or_string (b_status b) ''pending'',
       c_aiScore = or_number (b_aiScore b) 50,
       c_duration = or_number (b_duration b) 0,
       c_createdAt = now,
       c_messages = or_array (b_messages b) [] \<rparr>"

text \<open>\<^verbatim>\<open>app.post('/api/conversations')\<close>: \<^verbatim>\<open>unshift\<close> puts the new object first.\<close>

definition postConversation ::
  "string \<Rightarrow> string \<Rightarrow> conversation list \<Rightarrow> body \<Rightarrow> conversation list \<times> reply" where
  "postConversation rnd now conversations b =
     (let created = newConversation rnd now b
      in (created # conversations, Reply 201 (ConversationJson created)))"

definition falsyBody :: body where
  "falsyBody = emptyBody\<lparr>b_title := Some [], b_customerName := Some [], b_aiScore := Some 0\<rparr>"

section \<open>Updating and deleting a conversation\<close>

text \<open>
  \<^verbatim>\<open>findIndex\<close> gives the first position whose element satisfies the test, and -1
  (here \<open>None\<close>) when there is none.
\<close>

fun findIndex :: "('a \<Rightarrow> bool) \<Rightarrow> 'a list \<Rightarrow> nat option" where
  "findIndex p [] = None"
| "findIndex p (x # xs) =
     (if p x then Some 0 else (case findIndex p xs of None \<Rightarrow> None | Some i \<Rightarrow> Some (Suc i)))"

text \<open>
  The object spread \<^verbatim>\<open>{ ...conversations[index], ...req.body }\<close>: every key of the body
  replaces the record's value under that key, and the other keys keep the record's value.
  No key is treated apart.
\<close>

definition spread :: "conversation \<Rightarrow> body \<Rightarrow> conversation" where
  "spread c b =
     \<lparr> c_id = (case b_id b of None \<Rightarrow> c_id c | Some v \<Rightarrow> v),
       c_title = (case b_title b of None \<Rightarrow> c_title c | Some v \<Rightarrow> v),
       c_customerName = (case b_customerName b of None \<Rightarrow> c_customerName c | Some v \<Rightarrow> v),
       c_agentName = (case b_agentName b of None \<Rightarrow> c_agentName c | Some v \<Rightarrow> v),
       c_agentId = (case b_agentId b of None \<Rightarrow> c_agentId c | Some v \<Rightarrow> v),
       c_sentiment = (case b_sentiment b of None \<Rightarrow> c_sentiment c | Some v \<Rightarrow> v),
       c_status = (case b_status b of None \<Rightarrow> c_status c | Some v \<Rightarrow> v),
       c_aiScore = (case b_aiScore b of None \<Rightarrow> c_aiScore c | Some v \<Rightarrow> v),
       c_duration = (case b_duration b of None \<Rightarrow> c_duration c | Some v \<Rightarrow> v),
       c_createdAt = (case b_createdAt b of None \<Rightarrow> c_createdAt c | Some v \<Rightarrow> v),
       c_messages = (case b_messages b of None \<Rightarrow> c_messages c | Some v \<Rightarrow> v) \<rparr>"

text \<open>\<^verbatim>\<open>app.put('/api/conversations/:id')\<close>\<close>

definition putConversation ::
  "conversation list \<Rightarrow> string \<Rightarrow> body \<Rightarrow> conversation list \<times> reply" where
  "putConversation conversations ident b =
     (case findIndex (\<lambda>c. c_id c = ident) conversations of
        Some index \<Rightarrow>
          (let updated = spread (conversations ! index) b
           in (conversations[index := updated], Reply 200 (ConversationJson updated)))
      | None \<Rightarrow> (conversations, Reply 404 (ErrorJson ''Conversation not found'')))"

text \<open>\<^verbatim>\<open>app.delete('/api/conversations/:id')\<close>: \<^verbatim>\<open>splice(index, 1)\<close> removes one element.\<close>

definition deleteConversation :: "conversation list \<Rightarrow> string \<Rightarrow> conversation list \<times> reply" where
  "deleteConversation conversations ident =
     (case findIndex (\<lambda>c. c_id c = ident) conversations of
        Some index \<Rightarrow> (take index conversations @ drop (Suc index) conversations,
                       Reply 200 SuccessJson)
      | None \<Rightarrow> (conversations, Reply 404 (ErrorJson ''Conversation not found'')))"

section \<open>Listing conversations\<close>

text \<open>
  \<^verbatim>\<open>req.query\<close>: each of the eight parameters is a string when the URL holds it once,
  as a plain value, and \<^verbatim>\<open>undefined\<close> (\<open>None\<close>) when it does not. A parameter that the
  URL repeats, or writes with brackets, is an array or an object in Express and is not
  a value of this type; for \<^verbatim>\<open>search\<close> the handler then throws, as it does on a stored
  title that is not a string.
\<close>

record query =
  q_sentiment :: "string option"
  q_status :: "string option"
  q_agentId :: "string option"
  q_search :: "string option"
  q_minScore :: "string option"
  q_maxScore :: "string option"
  q_page :: "string option"
  q_limit :: "string option"

definition emptyQuery :: query where
  "emptyQuery = \<lparr> q_sentiment = None, q_status = None, q_agentId = None, q_search = None,
     q_minScore = None, q_maxScore = None, q_page = None, q_limit = None \<rparr>"

text \<open>The test \<^verbatim>\<open>if (req.query.x)\<close>: a parameter counts when it is a non-empty string.\<close>

definition truthy :: "string option \<Rightarrow> bool" where
  "truthy v = (case v of None \<Rightarrow> False | Some s \<Rightarrow> s \<noteq> [])"

subsection \<open>\<^verbatim>\<open>parseInt\<close>\<close>

text \<open>
  \<^verbatim>\<open>parseInt\<close> with no radix, as ECMAScript defines it: leading white space is dropped,
  then an optional sign, then an optional \<^verbatim>\<open>0x\<close> that selects radix 16 (radix 10
  otherwise), then the longest run of digits of that radix is read and the rest of the
  string is ignored. With no digit the result is \<^verbatim>\<open>NaN\<close>, here \<open>None\<close>. Otherwise the
  result here is the integer that the digits denote; the number that JavaScript returns
  is that integer when it is a safe integer, and the double nearest to it beyond.

  The white space of ECMAScript, each character as its UTF-8 bytes: tab, line feed,
  vertical tab, form feed, carriage return, space, no-break space (U+00A0), ogham space
  mark (U+1680), the spaces U+2000 to U+200A, line separator (U+2028), paragraph
  separator (U+2029), narrow no-break space (U+202F), medium mathematical space
  (U+205F), ideographic space (U+3000) and the byte order mark (U+FEFF).
\<close>

definition whiteSpace :: "string list" where
  "whiteSpace =
     [[CHR 0x09], [CHR 0x0A], [CHR 0x0B], [CHR 0x0C], [CHR 0x0D], [CHR 0x20],
      [CHR 0xC2, CHR 0xA0],
      [CHR 0xE1, CHR 0x9A, CHR 0x80],
      [CHR 0xE2, CHR 0x80, CHR 0x80], [CHR 0xE2, CHR 0x80, CHR 0x81],
      [CHR 0xE2, CHR 0x80, CHR 0x82], [CHR 0xE2, CHR 0x80, CHR 0x83],
      [CHR 0xE2, CHR 0x80, CHR 0x84], [CHR 0xE2, CHR 0x80, CHR 0x85],
      [CHR 0xE2, CHR 0x80, CHR 0x86], [CHR 0xE2, CHR 0x80, CHR 0x87],
      [CHR 0xE2, CHR 0x80, CHR 0x88], [CHR 0xE2, CHR 0x80, CHR 0x89],
      [CHR 0xE2, CHR 0x80, CHR 0x8A],
      [CHR 0xE2, CHR 0x80, CHR 0xA8], [CHR 0xE2, CHR 0x80, CHR 0xA9],
      [CHR 0xE2, CHR 0x80, CHR 0xAF],
      [CHR 0xE2, CHR 0x81, CHR 0x9F],
      [CHR 0xE3, CHR 0x80, CHR 0x80],
      [CHR 0xEF, CHR 0xBB, CHR 0xBF]]"

text \<open>
  The number of bytes of the white-space character that a string starts with, and 0
  when it starts with none.
\<close>

definition whiteSpaceLength :: "string \<Rightarrow> nat" where
  "whiteSpaceLength s =
     (case find (\<lambda>w. take (length w) s = w) whiteSpace of
        None \<Rightarrow> 0
      | Some w \<Rightarrow> length w)"

function trimStart :: "string \<Rightarrow> string" where
  "trimStart s =
     (if whiteSpaceLength s = 0 then s else trimStart (drop (whiteSpaceLength s) s))"
  by pat_completeness auto
termination
proof (relation "measure length")
  show "wf (measure length)"
    by simp
next
  fix s :: string
  assume w: "whiteSpaceLength s \<noteq> 0"
  have "s \<noteq> []"
  proof
    assume "s = []"
    then have "whiteSpaceLength s = 0"
      by (simp add: whiteSpaceLength_def whiteSpace_def)
    with w show False by simp
  qed
  with w show "(drop (whiteSpaceLength s) s, s) \<in> measure length"
    by simp
qed

definition digitValue :: "char \<Rightarrow> nat option" where
  "digitValue c =
     (let n = (of_char c :: nat)
      in if 48 \<le> n \<and> n \<le> 57 then Some (n - 48)
         else if 97 \<le> n \<and> n \<le> 122 then Some (n - 87)
         else if 65 \<le> n \<and> n \<le> 90 then Some (n - 55)
         else None)"

definition isDigit :: "nat \<Rightarrow> char \<Rightarrow> bool" where
  "isDigit radix c = (case digitValue c of None \<Rightarrow> False | Some d \<Rightarrow> d < radix)"

definition digitsValue :: "nat \<Rightarrow> string \<Rightarrow> nat" where
  "digitsValue radix z = foldl (\<lambda>acc c. acc * radix + the (digitValue c)) 0 z"

definition parseInt :: "string \<Rightarrow> int option" where
  "parseInt str =
     (let s = trimStart str;
          negative = (take 1 s = ''-'');
          s1 = (if take 1 s = ''+'' \<or> take 1 s = ''-'' then drop 1 s else s);
          hex = (take 2 s1 = ''0x'' \<or> take 2 s1 = ''0X'');
          radix = (if hex then 16 else 10);
          s2 = (if hex then drop 2 s1 else s1);
          z = takeWhile (isDigit radix) s2
      in if z = [] then None
         else Some ((if negative then - 1 else 1) * int (digitsValue radix z)))"

text \<open>
  \<^verbatim>\<open>parseInt(req.query.x)\<close> for a parameter that may be missing: \<^verbatim>\<open>undefined\<close> is
  first turned into the string "undefined".
\<close>

definition parseIntParam :: "string option \<Rightarrow> int option" where
  "parseIntParam v = (case v of None \<Rightarrow> parseInt ''undefined'' | Some s \<Rightarrow> parseInt s)"

text \<open>
  Comparing a number with the result of \<^verbatim>\<open>parseInt\<close>: any comparison with NaN is
  false.
\<close>

definition ge_number :: "int \<Rightarrow> int option \<Rightarrow> bool" where
  "ge_number a v = (case v of None \<Rightarrow> False | Some n \<Rightarrow> n \<le> a)"

definition le_number :: "int \<Rightarrow> int option \<Rightarrow> bool" where
  "le_number a v = (case v of None \<Rightarrow> False | Some n \<Rightarrow> a \<le> n)"

subsection \<open>Strings\<close>

text \<open>
  \<^verbatim>\<open>toLowerCase\<close> on the letters A to Z, and \<^verbatim>\<open>includes\<close> (the substring test).
  \<^verbatim>\<open>toLowerCase\<close> also maps the capital letters beyond ASCII, by the Unicode tables;
  here their bytes stay as they are.
\<close>

definition lowerChar :: "char \<Rightarrow> char" where
  "lowerChar c =
     (let n = (of_char c :: nat) in if 65 \<le> n \<and> n \<le> 90 then char_of (n + 32) else c)"

definition toLowerCase :: "string \<Rightarrow> string" where
  "toLowerCase s = map lowerChar s"

fun includesString :: "string \<Rightarrow> string \<Rightarrow> bool" where
  "includesString [] sub = (sub = [])"
| "includesString (c # cs) sub = (take (length sub) (c # cs) = sub \<or> includesString cs sub)"

subsection \<open>The six filters\<close>

definition bySentiment :: "query \<Rightarrow> conversation list \<Rightarrow> conversation list" where
  "bySentiment q result =
     (if truthy (q_sentiment q)
      then filter (\<lambda>c. Some (c_sentiment c) = q_sentiment q) result else result)"

definition byStatus :: "query \<Rightarrow> conversation list \<Rightarrow> conversation list" where
  "byStatus q result =
     (if truthy (q_status q)
      then filter (\<lambda>c. Some (c_status c) = q_status q) result else result)"

definition byAgentId :: "query \<Rightarrow> conversation list \<Rightarrow> conversation list" where
  "byAgentId q result =
     (if truthy (q_agentId q)
      then filter (\<lambda>c. c_agentId c = q_agentId q) result else result)"

definition bySearch :: "query \<Rightarrow> conversation list \<Rightarrow> conversation list" where
  "bySearch q result =
     (if truthy (q_search q)
      then (let search = toLowerCase (the (q_search q))
            in filter (\<lambda>c. includesString (toLowerCase (c_title c)) search \<or>
                           includesString (toLowerCase (c_customerName c)) search) result)
      else result)"

definition byMinScore :: "query \<Rightarrow> conversation list \<Rightarrow> conversation list" where
  "byMinScore q result =
     (if truthy (q_minScore q)
      then filter (\<lambda>c. ge_number (c_aiScore c) (parseIntParam (q_minScore q))) result
      else result)"

definition byMaxScore :: "query \<Rightarrow> conversation list \<Rightarrow> conversation list" where
  "byMaxScore q result =
     (if truthy (q_maxScore q)
      then filter (\<lambda>c. le_number (c_aiScore c) (parseIntParam (q_maxScore q))) result
      else result)"

definition applyFilters :: "query \<Rightarrow> conversation list \<Rightarrow> conversation list" where
  "applyFilters q conversations =
     byMaxScore q (byMinScore q (bySearch q (byAgentId q (byStatus q
       (bySentiment q conversations)))))"

subsection \<open>Pagination\<close>

text \<open>
  \<^verbatim>\<open>Array.prototype.slice(start, end)\<close>: a negative index counts from the end of the
  array, every index is clamped to the array, and an end before the start gives the
  empty array.
\<close>

definition relativeIndex :: "int \<Rightarrow> nat \<Rightarrow> nat" where
  "relativeIndex i len = (if i < 0 then nat (max (int len + i) 0) else min (nat i) len)"

definition slice :: "'a list \<Rightarrow> int \<Rightarrow> int \<Rightarrow> 'a list" where
  "slice xs start stop =
     (let k = relativeIndex start (length xs);
          final = relativeIndex stop (length xs)
      in take (final - k) (drop k xs))"


text \<open>
  \<^verbatim>\<open>parseInt(req.query.page) || 1\<close> and \<^verbatim>\<open>parseInt(req.query.limit) || 10\<close>: the
  default stands in for NaN and for 0, and for nothing else.
\<close>

definition pageParam :: "query \<Rightarrow> int" where
  "pageParam q = or_number (parseIntParam (q_page q)) 1"

definition limitParam :: "query \<Rightarrow> int" where
  "limitParam q = or_number (parseIntParam (q_limit q)) 10"








fun statusCode :: "reply \<Rightarrow> nat" where
  "statusCode (Reply st p) = st"

subsection \<open>Vocabulary for the properties of listing\<close>

text \<open>
  A conversation satisfies every filter that the query supplies. This is the reading of
  "the filters combine conjunctively" that the listing is compared with.
\<close>

definition satisfiesAll :: "query \<Rightarrow> conversation \<Rightarrow> bool" where
  "satisfiesAll q c =
     ((truthy (q_sentiment q) \<longrightarrow> Some (c_sentiment c) = q_sentiment q) \<and>
      (truthy (q_status q) \<longrightarrow> Some (c_status c) = q_status q) \<and>
      (truthy (q_agentId q) \<longrightarrow> c_agentId c = q_agentId q) \<and>
      (truthy (q_search q) \<longrightarrow>
         includesString (toLowerCase (c_title c)) (toLowerCase (the (q_search q))) \<or>
         includesString (toLowerCase (c_customerName c)) (toLowerCase (the (q_search q)))) \<and>
      (truthy (q_minScore q) \<longrightarrow> ge_number (c_aiScore c) (parseIntParam (q_minScore q))) \<and>
      (truthy (q_maxScore q) \<longrightarrow> le_number (c_aiScore c) (parseIntParam (q_maxScore q))))"

text \<open>\<open>q'\<close> is \<open>q\<close> with some of its filters removed; page and limit are free.\<close>

definition removesFilters :: "query \<Rightarrow> query \<Rightarrow> bool" where
  "removesFilters q' q =
     ((q_sentiment q' = None \<or> q_sentiment q' = q_sentiment q) \<and>
      (q_status q' = None \<or> q_status q' = q_status q) \<and>
      (q_agentId q' = None \<or> q_agentId q' = q_agentId q) \<and>
      (q_search q' = None \<or> q_search q' = q_search q) \<and>
      (q_minScore q' = None \<or> q_minScore q' = q_minScore q) \<and>
      (q_maxScore q' = None \<or> q_maxScore q' = q_maxScore q))"

subsection \<open>Sample requests\<close>

definition negativeResolved :: query where
  "negativeResolved = emptyQuery\<lparr>q_sentiment := Some ''negative'', q_status := Some ''resolved''\<rparr>"

definition negativeOnly :: query where
  "negativeOnly = emptyQuery\<lparr>q_sentiment := Some ''negative''\<rparr>"









section \<open>Sessions\<close>

record user =
  u_email :: string
  u_password :: string
  u_role :: string
  u_name :: string

definition users :: "user list" where
  "users =
     [\<lparr> u_email = ''admin@crestastream.com'', u_password = ''admin123'', u_role = ''admin'',
        u_name = ''Admin User'' \<rparr>,
      \<lparr> u_email = ''agent@crestastream.com'', u_password = ''agent123'', u_role = ''agent'',
        u_name = ''Test Agent'' \<rparr>,
      \<lparr> u_email = ''manager@crestastream.com'', u_password = ''manager123'',
        u_role = ''manager'', u_name = ''Manager User'' \<rparr>]"

text \<open>
  \<^verbatim>\<open>tokenStore\<close> is an object used as a dictionary from token to user: the map holds
  the keys that the handlers store, not the names that every object inherits. The suffix
  that \<^verbatim>\<open>generateToken\<close> draws from \<^verbatim>\<open>Math.random\<close> is its argument.
\<close>

type_synonym tokenStore = "string \<rightharpoonup> user"

definition generateToken :: "string \<Rightarrow> string" where
  "generateToken rnd = ''token-'' @ rnd"

text \<open>\<^verbatim>\<open>s.replace(pattern, replacement)\<close> with a string pattern: the first occurrence only.\<close>

fun replaceFirst :: "string \<Rightarrow> string \<Rightarrow> string \<Rightarrow> string" where
  "replaceFirst pat rep [] = (if pat = [] then rep else [])"
| "replaceFirst pat rep (c # cs) =
     (if take (length pat) (c # cs) = pat then rep @ drop (length pat) (c # cs)
      else c # replaceFirst pat rep cs)"

text \<open>\<^verbatim>\<open>req.headers.authorization?.replace('Bearer ', '')\<close>\<close>

definition bearer :: "string option \<Rightarrow> string option" where
  "bearer authorization = map_option (replaceFirst ''Bearer '' []) authorization"

text \<open>A property key: \<^verbatim>\<open>undefined\<close> is read as the key "undefined".\<close>

definition propertyKey :: "string option \<Rightarrow> string" where
  "propertyKey v = (case v of None \<Rightarrow> ''undefined'' | Some s \<Rightarrow> s)"

text \<open>
  \<^verbatim>\<open>app.post('/api/auth/login')\<close>. \<open>rnd1\<close> and \<open>rnd2\<close> are the two draws of
  \<^verbatim>\<open>generateToken\<close>, in the order of the calls.
\<close>

definition login ::
  "string \<Rightarrow> string \<Rightarrow> tokenStore \<Rightarrow> string option \<Rightarrow> string option \<Rightarrow> tokenStore \<times> reply" where
  "login rnd1 rnd2 store email password =
     (case find (\<lambda>u. Some (u_email u) = email \<and> Some (u_password u) = password) users of
        Some usr \<Rightarrow>
          (let token = generateToken rnd1;
               refreshToken = ''ref-'' @ generateToken rnd2
           in (store(token \<mapsto> usr, refreshToken \<mapsto> usr),
               Reply 200 (AuthJson token refreshToken (u_email usr) (u_name usr) (u_role usr))))
      | None \<Rightarrow> (store, Reply 401 (FailureJson ''Invalid credentials'')))"

text \<open>
  \<^verbatim>\<open>app.post('/api/auth/refresh')\<close>. The token comes from the body and, when the body
  has none, from the Authorization header. Only the token that was presented is deleted.
  The lookup is the one of the stored keys: a presented name that every object inherits,
  such as \<^verbatim>\<open>constructor\<close>, is outside this function.
\<close>

definition refresh ::
  "string \<Rightarrow> string \<Rightarrow> tokenStore \<Rightarrow> string option \<Rightarrow> string option \<Rightarrow> tokenStore \<times> reply" where
  "refresh rnd1 rnd2 store incomingRefreshToken authorization =
     (let tokenToVerify =
            (if truthy incomingRefreshToken then incomingRefreshToken else bearer authorization)
      in case store (propertyKey tokenToVerify) of
           Some usr \<Rightarrow>
             (let newToken = generateToken rnd1;
                  newRefreshToken = ''ref-'' @ generateToken rnd2
              in ((store(propertyKey tokenToVerify := None))
                    (newToken \<mapsto> usr, newRefreshToken \<mapsto> usr),
                  Reply 200 (AuthJson newToken newRefreshToken
                    (u_email usr) (u_name usr) (u_role usr))))
         | None \<Rightarrow> (store, Reply 401 (FailureJson ''Invalid token'')))"

text \<open>\<^verbatim>\<open>app.post('/api/auth/logout')\<close>\<close>

definition logout :: "tokenStore \<Rightarrow> string option \<Rightarrow> tokenStore \<times> reply" where
  "logout store authorization =
     (let token = bearer authorization
      in ((if truthy token then store(the token := None) else store),
          Reply 200 SuccessJson))"

section \<open>Metrics\<close>

text \<open>
  The numbers that \<^verbatim>\<open>calculateMetrics\<close> returns are results of divisions, so they are
  doubles that need not be integers or even finite: \<^verbatim>\<open>0 / 0\<close> is \<^verbatim>\<open>NaN\<close>. A finite
  result is a rational rounded to a double by \<open>fl\<close>, which the model leaves open.
  \<^verbatim>\<open>res.json\<close> writes \<^verbatim>\<open>NaN\<close> and the infinities as \<^verbatim>\<open>null\<close>.
\<close>

datatype number = NaN | Infinity | NegInfinity | Finite rat

definition js_divide :: "(rat \<Rightarrow> rat) \<Rightarrow> int \<Rightarrow> nat \<Rightarrow> number" where
  "js_divide fl a b =
     (if b = 0 then (if a = 0 then NaN else if 0 < a then Infinity else NegInfinity)
      else Finite (fl (of_int a / of_nat b)))"

definition js_times :: "(rat \<Rightarrow> rat) \<Rightarrow> number \<Rightarrow> int \<Rightarrow> number" where
  "js_times fl x k =
     (case x of
        NaN \<Rightarrow> NaN
      | Finite r \<Rightarrow> Finite (fl (r * of_int k))
      | Infinity \<Rightarrow> (if k = 0 then NaN else if 0 < k then Infinity else NegInfinity)
      | NegInfinity \<Rightarrow> (if k = 0 then NaN else if 0 < k then NegInfinity else Infinity))"

text \<open>\<^verbatim>\<open>Math.round\<close>: the nearest integer, a tie going up; NaN and the infinities stay.\<close>

definition mathRound :: "number \<Rightarrow> number" where
  "mathRound x = (case x of Finite r \<Rightarrow> Finite (of_int \<lfloor>r + 1 / 2\<rfloor>) | other \<Rightarrow> other)"

record metrics =
  totalConversations :: nat
  positiveCount :: nat
  negativeCount :: nat
  neutralCount :: nat
  averageAiScore :: number
  resolutionRate :: number
  averageHandleTime :: number

definition calculateMetrics :: "(rat \<Rightarrow> rat) \<Rightarrow> conversation list \<Rightarrow> metrics" where
  "calculateMetrics fl conversations =
     (let total = length conversations;
          positive = length (filter (\<lambda>c. c_sentiment c = ''positive'') conversations);
          negative = length (filter (\<lambda>c. c_sentiment c = ''negative'') conversations);
          neutral = length (filter (\<lambda>c. c_sentiment c = ''neutral'') conversations);
          avgScore = mathRound
            (js_divide fl (foldl (\<lambda>sum c. sum + c_aiScore c) 0 conversations) total);
          resolved = length (filter (\<lambda>c. c_status c = ''resolved'' \<or> c_status c = ''completed'')
            conversations)
      in \<lparr> totalConversations = total,
           positiveCount = positive,
           negativeCount = negative,
           neutralCount = neutral,
           averageAiScore = avgScore,
           resolutionRate = mathRound (js_times fl (js_divide fl (int resolved) total) 100),
           averageHandleTime = mathRound
             (js_divide fl (foldl (\<lambda>sum c. sum + c_duration c) 0 conversations) total) \<rparr>)"

section \<open>Sample requests and states\<close>

definition renameBody :: body where
  "renameBody = emptyBody\<lparr>b_customerName := Some ''Updated Customer Name''\<rparr>"

definition overwriteBody :: body where
  "overwriteBody =
     emptyBody\<lparr>b_id := Some ''conv-999'', b_createdAt := Some ''1999-01-01T00:00:00Z''\<rparr>"

text \<open>The store after the five seed conversations have been deleted one by one.\<close>

definition emptiedStore :: "conversation list" where
  "emptiedStore =
     foldl (\<lambda>conversations ident. fst (deleteConversation conversations ident))
       seedConversations [''conv-001'', ''conv-002'', ''conv-003'', ''conv-004'', ''conv-005'']"

text \<open>
  A session: the administrator logs in on an empty token store, then refreshes with the
  refresh token of the login.
\<close>

definition admin :: user where
  "admin = \<lparr> u_email = ''admin@crestastream.com'', u_password = ''admin123'',
     u_role = ''admin'', u_name = ''Admin User'' \<rparr>"

definition loggedIn :: tokenStore where
  "loggedIn =
     fst (login ''k1a'' ''k2b'' Map.empty (Some ''admin@crestastream.com'') (Some ''admin123''))"

definition rotated :: tokenStore where
  "rotated = fst (refresh ''k3c'' ''k4d'' loggedIn (Some ''ref-token-k2b'') None)"

text \<open>
  The same refresh done with the access token of the login, sent in the Authorization
  header and not in the body.
\<close>

definition rotatedByHeader :: tokenStore where
  "rotatedByHeader = fst (refresh ''k3c'' ''k4d'' loggedIn None (Some ''Bearer token-k1a''))"

section \<open>Properties of creation\<close>

text \<open>
  C7. Creating a conversation gives every field that the body leaves out its default
  (title "New Conversation", customerName "Unknown Customer", agentName "Unassigned",
  agentId null, sentiment "neutral", status "pending", aiScore 50, duration 0, messages
  empty). The id and createdAt of the new record are the server's, whatever the body
  holds under these keys. The new record becomes the first of the collection, the rest
  of which is unchanged, and the reply is 201 with the new record.
\<close>

theorem postConversation_defaults:
  assumes "postConversation rnd now conversations b = (conversations', rep)"
  shows "\<exists>created.
           conversations' = created # conversations \<and>
           rep = Reply 201 (ConversationJson created) \<and>
           c_id created = generateId rnd \<and> c_createdAt created = now \<and>
           postConversation rnd now conversations (b\<lparr>b_id := i, b_createdAt := t\<rparr>)
             = (conversations', rep) \<and>
           (b_title b = None \<longrightarrow> c_title created = ''New Conversation'') \<and>
           (b_customerName b = None \<longrightarrow> c_customerName created = ''Unknown Customer'') \<and>
           (b_agentName b = None \<longrightarrow> c_agentName created = ''Unassigned'') \<and>
           (b_agentId b = None \<longrightarrow> c_agentId created = None) \<and>
           (b_sentiment b = None \<longrightarrow> c_sentiment created = ''neutral'') \<and>
           (b_status b = None \<longrightarrow> c_status created = ''pending'') \<and>
           (b_aiScore b = None \<longrightarrow> c_aiScore created = 50) \<and>
           (b_duration b = None \<longrightarrow> c_duration created = 0) \<and>
           (b_messages b = None \<longrightarrow> c_messages created = [])"
  using assms
  by (auto simp: postConversation_def newConversation_def Let_def
      or_string_def or_number_def or_array_def or_null_def)

theorem postConversation_defaults_witness:
  "\<exists>created.
     postConversation ''k3x9q2a'' ''2024-01-16T08:00:00.000Z'' [] emptyBody
       = ([created], Reply 201 (ConversationJson created)) \<and>
     c_id created = ''conv-k3x9q2a'' \<and>
     c_createdAt created = ''2024-01-16T08:00:00.000Z'' \<and>
     c_sentiment created = ''neutral'' \<and> c_status created = ''pending'' \<and>
     c_aiScore created = 50"
proof -
  obtain cs' rep where eq:
    "postConversation ''k3x9q2a'' ''2024-01-16T08:00:00.000Z'' [] emptyBody = (cs', rep)"
    by (cases "postConversation ''k3x9q2a'' ''2024-01-16T08:00:00.000Z'' [] emptyBody")
  have nb: "b_sentiment emptyBody = None" "b_status emptyBody = None"
    "b_aiScore emptyBody = None"
    by (simp_all add: emptyBody_def)
  from postConversation_defaults [OF eq]
  obtain created where c: "cs' = [created] \<and> rep = Reply 201 (ConversationJson created) \<and>
    c_id created = generateId ''k3x9q2a'' \<and>
    c_createdAt created = ''2024-01-16T08:00:00.000Z'' \<and>
    c_sentiment created = ''neutral'' \<and> c_status created = ''pending'' \<and>
    c_aiScore created = 50"
    using nb by metis
  have g: "generateId ''k3x9q2a'' = ''conv-k3x9q2a''"
    by (simp add: generateId_def)
  from c eq g show ?thesis by metis
qed

text \<open>
  C9. The defaults of creation are chosen by falsiness. A body that holds aiScore 0, an
  empty title or an empty customerName gets the default in its place: aiScore 50, title
  "New Conversation", customerName "Unknown Customer".
\<close>

theorem postConversation_falsy_defaults:
  assumes "postConversation rnd now conversations b = (conversations', rep)"
  shows "(b_aiScore b = Some 0 \<longrightarrow> c_aiScore (hd conversations') = 50) \<and>
         (b_title b = Some [] \<longrightarrow> c_title (hd conversations') = ''New Conversation'') \<and>
         (b_customerName b = Some [] \<longrightarrow>
            c_customerName (hd conversations') = ''Unknown Customer'') \<and>
         rep = Reply 201 (ConversationJson (hd conversations'))"
  using assms
  by (auto simp: postConversation_def newConversation_def Let_def
      or_string_def or_number_def)

theorem postConversation_falsy_defaults_witness:
  "c_aiScore (hd (fst (postConversation ''k3x9q2a'' ''2024-01-16T08:00:00.000Z'' [] falsyBody)))
     = 50 \<and>
   c_title (hd (fst (postConversation ''k3x9q2a'' ''2024-01-16T08:00:00.000Z'' [] falsyBody)))
     = ''New Conversation'' \<and>
   c_customerName
     (hd (fst (postConversation ''k3x9q2a'' ''2024-01-16T08:00:00.000Z'' [] falsyBody)))
     = ''Unknown Customer''"
proof -
  obtain cs' rep where eq:
    "postConversation ''k3x9q2a'' ''2024-01-16T08:00:00.000Z'' [] falsyBody = (cs', rep)"
    by (cases "postConversation ''k3x9q2a'' ''2024-01-16T08:00:00.000Z'' [] falsyBody")
  have hb: "b_aiScore falsyBody = Some 0" "b_title falsyBody = Some []"
    "b_customerName falsyBody = Some []"
    by (simp_all add: falsyBody_def emptyBody_def)
  from postConversation_falsy_defaults [OF eq] hb
  have "c_aiScore (hd cs') = 50 \<and> c_title (hd cs') = ''New Conversation'' \<and>
        c_customerName (hd cs') = ''Unknown Customer''"
    by blast
  moreover
  have "fst (postConversation ''k3x9q2a'' ''2024-01-16T08:00:00.000Z'' [] falsyBody) = cs'"
    by (simp only: eq fst_conv)
  ultimately show ?thesis by (simp only:)
qed

section \<open>Properties of listing\<close>

subsection \<open>Filtering\<close>

lemma parseInt_undefined: "parseInt ''undefined'' = None"
  by code_simp

lemma parseIntParam_None [simp]: "parseIntParam None = None"
  by (simp add: parseIntParam_def parseInt_undefined)


lemma slice_Nil [simp]: "slice [] s e = []"
  by (simp add: slice_def)

lemma bySentiment_filter:
  "bySentiment q r =
     filter (\<lambda>c. truthy (q_sentiment q) \<longrightarrow> Some (c_sentiment c) = q_sentiment q) r"
  by (simp add: bySentiment_def)

lemma byStatus_filter:
  "byStatus q r = filter (\<lambda>c. truthy (q_status q) \<longrightarrow> Some (c_status c) = q_status q) r"
  by (simp add: byStatus_def)

lemma byAgentId_filter:
  "byAgentId q r = filter (\<lambda>c. truthy (q_agentId q) \<longrightarrow> c_agentId c = q_agentId q) r"
  by (simp add: byAgentId_def)

lemma bySearch_filter:
  "bySearch q r =
     filter (\<lambda>c. truthy (q_search q) \<longrightarrow>
        includesString (toLowerCase (c_title c)) (toLowerCase (the (q_search q))) \<or>
        includesString (toLowerCase (c_customerName c)) (toLowerCase (the (q_search q)))) r"
  by (simp add: bySearch_def Let_def)

lemma byMinScore_filter:
  "byMinScore q r =
     filter (\<lambda>c. truthy (q_minScore q) \<longrightarrow>
        ge_number (c_aiScore c) (parseIntParam (q_minScore q))) r"
  by (simp add: byMinScore_def)

lemma byMaxScore_filter:
  "byMaxScore q r =
     filter (\<lambda>c. truthy (q_maxScore q) \<longrightarrow>
        le_number (c_aiScore c) (parseIntParam (q_maxScore q))) r"
  by (simp add: byMaxScore_def)

lemma applyFilters_filter: "applyFilters q cs = filter (satisfiesAll q) cs"
  unfolding applyFilters_def bySentiment_filter byStatus_filter byAgentId_filter
    bySearch_filter byMinScore_filter byMaxScore_filter filter_filter satisfiesAll_def
  by (rule filter_cong) blast+

lemma satisfiesAll_page: "satisfiesAll (q\<lparr>q_page := v\<rparr>) = satisfiesAll q"
  by (rule ext) (simp add: satisfiesAll_def)

lemma satisfiesAll_limit: "satisfiesAll (q\<lparr>q_limit := v\<rparr>) = satisfiesAll q"
  by (rule ext) (simp add: satisfiesAll_def)

lemma applyFilters_page [simp]: "applyFilters (q\<lparr>q_page := v\<rparr>) cs = applyFilters q cs"
  by (simp only: applyFilters_filter satisfiesAll_page)

lemma applyFilters_limit [simp]: "applyFilters (q\<lparr>q_limit := v\<rparr>) cs = applyFilters q cs"
  by (simp only: applyFilters_filter satisfiesAll_limit)

lemma satisfiesAll_mono:
  assumes r: "removesFilters q' q" and s: "satisfiesAll q c"
  shows "satisfiesAll q' c"
proof -
  have 1: "truthy (q_sentiment q') \<Longrightarrow> q_sentiment q' = q_sentiment q"
    using r by (auto simp: removesFilters_def truthy_def)
  have 2: "truthy (q_status q') \<Longrightarrow> q_status q' = q_status q"
    using r by (auto simp: removesFilters_def truthy_def)
  have 3: "truthy (q_agentId q') \<Longrightarrow> q_agentId q' = q_agentId q"
    using r by (auto simp: removesFilters_def truthy_def)
  have 4: "truthy (q_search q') \<Longrightarrow> q_search q' = q_search q"
    using r by (auto simp: removesFilters_def truthy_def)
  have 5: "truthy (q_minScore q') \<Longrightarrow> q_minScore q' = q_minScore q"
    using r by (auto simp: removesFilters_def truthy_def)
  have 6: "truthy (q_maxScore q') \<Longrightarrow> q_maxScore q' = q_maxScore q"
    using r by (auto simp: removesFilters_def truthy_def)
  show ?thesis
    unfolding satisfiesAll_def
  proof (intro conjI impI)
    assume t: "truthy (q_sentiment q')"
    with 1 s show "Some (c_sentiment c) = q_sentiment q'" by (simp add: satisfiesAll_def)
  next
    assume t: "truthy (q_status q')"
    with 2 s show "Some (c_status c) = q_status q'" by (simp add: satisfiesAll_def)
  next
    assume t: "truthy (q_agentId q')"
    with 3 s show "c_agentId c = q_agentId q'" by (simp add: satisfiesAll_def)
  next
    assume t: "truthy (q_search q')"
    with 4 s show "includesString (toLowerCase (c_title c)) (toLowerCase (the (q_search q'))) \<or>
      includesString (toLowerCase (c_customerName c)) (toLowerCase (the (q_search q')))"
      by (simp add: satisfiesAll_def)
  next
    assume t: "truthy (q_minScore q')"
    with 5 s show "ge_number (c_aiScore c) (parseIntParam (q_minScore q'))"
      by (simp add: satisfiesAll_def)
  next
    assume t: "truthy (q_maxScore q')"
    with 6 s show "le_number (c_aiScore c) (parseIntParam (q_maxScore q'))"
      by (simp add: satisfiesAll_def)
  qed
qed

text \<open>
  C8. The filters of a listing combine conjunctively: the filtered result is exactly the
  records of the store, in their order, that satisfy every filter the query supplies (a
  filter is supplied when its parameter is a non-empty string). Removing filters from a
  query never shrinks the filtered result: every record the first query keeps is kept
  by the second, and the count of matches does not fall.
\<close>

theorem filters_conjunctive_monotone:
  assumes "removesFilters q' q"
  shows "applyFilters q cs = filter (satisfiesAll q) cs \<and>
         set (applyFilters q cs) \<subseteq> set (applyFilters q' cs) \<and>
         length (applyFilters q cs) \<le> length (applyFilters q' cs)"
proof -
  have eq: "filter (satisfiesAll q) cs = filter (satisfiesAll q) (filter (satisfiesAll q') cs)"
    unfolding filter_filter using satisfiesAll_mono [OF assms] by (intro filter_cong) auto
  have "length (filter (satisfiesAll q) cs) \<le> length (filter (satisfiesAll q') cs)"
    by (subst eq) (rule length_filter_le)
  moreover have "set (filter (satisfiesAll q) cs) \<subseteq> set (filter (satisfiesAll q') cs)"
    using satisfiesAll_mono [OF assms] by auto
  ultimately show ?thesis by (simp add: applyFilters_filter)
qed

theorem filters_conjunctive_monotone_witness:
  "removesFilters negativeOnly negativeResolved \<and>
   applyFilters negativeResolved seedConversations
     = filter (satisfiesAll negativeResolved) seedConversations \<and>
   set (applyFilters negativeResolved seedConversations)
     \<subseteq> set (applyFilters negativeOnly seedConversations) \<and>
   length (applyFilters negativeResolved seedConversations)
     \<le> length (applyFilters negativeOnly seedConversations) \<and>
   map c_id (applyFilters negativeResolved seedConversations) = [''conv-001''] \<and>
   map c_id (applyFilters negativeOnly seedConversations) = [''conv-001'', ''conv-005'']"
proof -
  have h: "removesFilters negativeOnly negativeResolved"
    by code_simp
  have v1: "map c_id (applyFilters negativeResolved seedConversations) = [''conv-001'']"
    by code_simp
  have v2: "map c_id (applyFilters negativeOnly seedConversations) = [''conv-001'', ''conv-005'']"
    by code_simp
  from filters_conjunctive_monotone [OF h, of seedConversations] h v1 v2
  show ?thesis by blast
qed

subsection \<open>Parameters that do not parse\<close>






lemma pageParam_limit [simp]: "pageParam (q\<lparr>q_limit := v\<rparr>) = pageParam q"
  by (simp add: pageParam_def)

lemma limitParam_page [simp]: "limitParam (q\<lparr>q_page := v\<rparr>) = limitParam q"
  by (simp add: limitParam_def)

lemma params_ignore_scores [simp]:
  "pageParam (q\<lparr>q_minScore := v\<rparr>) = pageParam q"
  "pageParam (q\<lparr>q_maxScore := v\<rparr>) = pageParam q"
  "limitParam (q\<lparr>q_minScore := v\<rparr>) = limitParam q"
  "limitParam (q\<lparr>q_maxScore := v\<rparr>) = limitParam q"
  by (simp_all add: pageParam_def limitParam_def)











subsection \<open>Pagination\<close>



lemma parseInt_no_break_space: "parseInt ([CHR 0xC2, CHR 0xA0] @ ''2'') = Some 2"
  by code_simp









section \<open>Properties of updating\<close>

lemma findIndex_Some:
  "findIndex p xs = Some i \<Longrightarrow> i < length xs \<and> p (xs ! i) \<and> (\<forall>j<i. \<not> p (xs ! j))"
proof (induction xs arbitrary: i)
  case Nil
  then show ?case by simp
next
  case (Cons x xs)
  show ?case
  proof (cases "p x")
    case True
    with Cons.prems show ?thesis by simp
  next
    case False
    with Cons.prems obtain k where k: "findIndex p xs = Some k" "i = Suc k"
      by (auto split: option.splits)
    from Cons.IH [OF k(1)] False k(2) show ?thesis
      by (auto simp: nth_Cons split: nat.splits)
  qed
qed

text \<open>
  C2 (as amended). Updating an existing conversation replaces the first record with
  that id by its shallow merge with the body, leaves every other record as it was, and
  replies 200 with the merged record. Every key that the body holds overwrites the
  record's value, id and createdAt included; every key that the body leaves out keeps
  the record's value. So id and createdAt are unchanged when the body supplies neither.
\<close>

theorem putConversation_spread:
  assumes "findIndex (\<lambda>c. c_id c = ident) conversations = Some index"
  shows "\<exists>updated.
           putConversation conversations ident b
             = (conversations[index := updated], Reply 200 (ConversationJson updated)) \<and>
           index < length conversations \<and> c_id (conversations ! index) = ident \<and>
           (b_id b = None \<and> b_createdAt b = None \<longrightarrow>
              c_id updated = ident \<and>
              c_createdAt updated = c_createdAt (conversations ! index)) \<and>
           c_id updated = (case b_id b of None \<Rightarrow> ident | Some v \<Rightarrow> v) \<and>
           c_createdAt updated =
             (case b_createdAt b of None \<Rightarrow> c_createdAt (conversations ! index) | Some v \<Rightarrow> v) \<and>
           c_title updated =
             (case b_title b of None \<Rightarrow> c_title (conversations ! index) | Some v \<Rightarrow> v) \<and>
           c_customerName updated =
             (case b_customerName b of None \<Rightarrow> c_customerName (conversations ! index)
              | Some v \<Rightarrow> v) \<and>
           c_agentName updated =
             (case b_agentName b of None \<Rightarrow> c_agentName (conversations ! index) | Some v \<Rightarrow> v) \<and>
           c_agentId updated =
             (case b_agentId b of None \<Rightarrow> c_agentId (conversations ! index) | Some v \<Rightarrow> v) \<and>
           c_sentiment updated =
             (case b_sentiment b of None \<Rightarrow> c_sentiment (conversations ! index) | Some v \<Rightarrow> v) \<and>
           c_status updated =
             (case b_status b of None \<Rightarrow> c_status (conversations ! index) | Some v \<Rightarrow> v) \<and>
           c_aiScore updated =
             (case b_aiScore b of None \<Rightarrow> c_aiScore (conversations ! index) | Some v \<Rightarrow> v) \<and>
           c_duration updated =
             (case b_duration b of None \<Rightarrow> c_duration (conversations ! index) | Some v \<Rightarrow> v) \<and>
           c_messages updated =
             (case b_messages b of None \<Rightarrow> c_messages (conversations ! index) | Some v \<Rightarrow> v)"
proof -
  from findIndex_Some [OF assms]
  have i: "index < length conversations" "c_id (conversations ! index) = ident"
    by simp_all
  have p: "putConversation conversations ident b
      = (conversations[index := spread (conversations ! index) b],
         Reply 200 (ConversationJson (spread (conversations ! index) b)))"
    using assms by (simp add: putConversation_def Let_def)
  show ?thesis
    apply (rule exI [of _ "spread (conversations ! index) b"])
    apply (simp only: p i simp_thms)
    apply (simp add: spread_def i split: option.splits)
    done
qed

theorem putConversation_spread_witness:
  "findIndex (\<lambda>c. c_id c = ''conv-003'') seedConversations = Some 2 \<and>
   b_id renameBody = None \<and> b_createdAt renameBody = None \<and>
   (\<exists>updated.
      putConversation seedConversations ''conv-003'' renameBody
        = (seedConversations[2 := updated], Reply 200 (ConversationJson updated)) \<and>
      c_id updated = ''conv-003'' \<and>
      c_createdAt updated = c_createdAt (seedConversations ! 2) \<and>
      c_customerName updated = ''Updated Customer Name'')"
proof -
  have f: "findIndex (\<lambda>c. c_id c = ''conv-003'') seedConversations = Some 2"
    by code_simp
  have n: "b_id renameBody = None" "b_createdAt renameBody = None"
    "b_customerName renameBody = Some ''Updated Customer Name''"
    by (simp_all add: renameBody_def emptyBody_def)
  from putConversation_spread [OF f, of renameBody] n f
  show ?thesis by auto
qed

text \<open>
  The claim as first stated fails: on the seed data, a body that holds an id and a
  createdAt overwrites both fields of the record it updates.
\<close>

theorem putConversation_overwrites_id_counterexample:
  "map c_id (fst (putConversation seedConversations ''conv-001'' overwriteBody))
     = [''conv-999'', ''conv-002'', ''conv-003'', ''conv-004'', ''conv-005''] \<and>
   map c_createdAt (fst (putConversation seedConversations ''conv-001'' overwriteBody))
     = [''1999-01-01T00:00:00Z'', ''2024-01-15T10:15:00Z'', ''2024-01-15T11:00:00Z'',
        ''2024-01-15T14:30:00Z'', ''2024-01-15T16:00:00Z''] \<and>
   map c_id seedConversations
     = [''conv-001'', ''conv-002'', ''conv-003'', ''conv-004'', ''conv-005'']"
  by code_simp

section \<open>Properties of sessions\<close>

lemma replaceFirst_prefix: "replaceFirst pat [] (pat @ t) = t"
proof (cases "pat @ t")
  case Nil
  then show ?thesis by simp
next
  case (Cons a list)
  have "replaceFirst pat [] (a # list) =
      (if take (length pat) (a # list) = pat then drop (length pat) (a # list)
       else a # replaceFirst pat [] list)"
    by simp
  also have "\<dots> = t"
    unfolding Cons [symmetric] by simp
  finally show ?thesis
    by (simp only: Cons)
qed

lemma bearer_Bearer: "bearer (Some (''Bearer '' @ t)) = Some t"
  unfolding bearer_def using replaceFirst_prefix [of "''Bearer ''" t] by simp

lemma loggedIn_eq:
  "loggedIn = [''token-k1a'' \<mapsto> admin, ''ref-token-k2b'' \<mapsto> admin]"
  by (simp add: loggedIn_def login_def users_def admin_def generateToken_def Let_def)

text \<open>
  C10. Logout never fails. Whatever the Authorization header, and with none, the reply
  is 200 with \<^verbatim>\<open>{success: true}\<close>. A header \<^verbatim>\<open>Bearer t\<close> removes the binding of
  \<open>t\<close>; with no header, or with a token that the store does not hold, the store is left
  as it was.
\<close>

theorem logout_never_fails:
  "snd (logout store authorization) = Reply 200 SuccessJson \<and>
   (authorization = None \<longrightarrow> fst (logout store authorization) = store) \<and>
   (\<forall>t. authorization = Some (''Bearer '' @ t) \<and> t \<noteq> [] \<longrightarrow>
      fst (logout store authorization) = store(t := None)) \<and>
   (\<forall>t. bearer authorization = Some t \<and> t \<noteq> [] \<longrightarrow>
      fst (logout store authorization) = store(t := None)) \<and>
   (\<forall>t. bearer authorization = Some t \<and> store t = None \<longrightarrow>
      fst (logout store authorization) = store)"
proof (intro conjI allI impI)
  show "snd (logout store authorization) = Reply 200 SuccessJson"
    by (simp add: logout_def Let_def)
next
  assume "authorization = None"
  then show "fst (logout store authorization) = store"
    by (simp add: logout_def Let_def bearer_def truthy_def)
next
  fix t assume "authorization = Some (''Bearer '' @ t) \<and> t \<noteq> []"
  then show "fst (logout store authorization) = store(t := None)"
    by (simp add: logout_def Let_def bearer_Bearer truthy_def del: append.simps)
next
  fix t assume "bearer authorization = Some t \<and> t \<noteq> []"
  then show "fst (logout store authorization) = store(t := None)"
    by (simp add: logout_def Let_def truthy_def)
next
  fix t assume "bearer authorization = Some t \<and> store t = None"
  then show "fst (logout store authorization) = store"
    by (auto simp: logout_def Let_def truthy_def)
qed

theorem logout_never_fails_witness:
  "snd (logout loggedIn None) = Reply 200 SuccessJson \<and>
   fst (logout loggedIn None) = loggedIn \<and>
   snd (logout loggedIn (Some ''Bearer token-unknown'')) = Reply 200 SuccessJson \<and>
   fst (logout loggedIn (Some ''Bearer token-unknown'')) = loggedIn \<and>
   snd (logout loggedIn (Some ''Bearer token-k1a'')) = Reply 200 SuccessJson \<and>
   fst (logout loggedIn (Some ''Bearer token-k1a'')) = loggedIn(''token-k1a'' := None) \<and>
   loggedIn ''token-k1a'' = Some admin"
proof -
  note a = logout_never_fails [of loggedIn None]
  note b = logout_never_fails [of loggedIn "Some ''Bearer token-unknown''"]
  note c = logout_never_fails [of loggedIn "Some ''Bearer token-k1a''"]
  have u: "bearer (Some ''Bearer token-unknown'') = Some ''token-unknown''"
    "loggedIn ''token-unknown'' = None"
    by (simp_all add: bearer_def loggedIn_eq)
  have k: "Some ''Bearer token-k1a'' = Some (''Bearer '' @ ''token-k1a'') \<and> ''token-k1a'' \<noteq> []"
    by simp
  have l: "loggedIn ''token-k1a'' = Some admin"
    by (simp add: loggedIn_eq)
  from a have 1: "snd (logout loggedIn None) = Reply 200 SuccessJson \<and>
      fst (logout loggedIn None) = loggedIn"
    by blast
  from b u have 2: "snd (logout loggedIn (Some ''Bearer token-unknown'')) = Reply 200 SuccessJson \<and>
      fst (logout loggedIn (Some ''Bearer token-unknown'')) = loggedIn"
    by blast
  from c k have 3: "snd (logout loggedIn (Some ''Bearer token-k1a'')) = Reply 200 SuccessJson \<and>
      fst (logout loggedIn (Some ''Bearer token-k1a'')) = loggedIn(''token-k1a'' := None)"
    by blast
  from 1 2 3 l show ?thesis by blast
qed

lemma login_ok:
  assumes "login rnd1 rnd2 store email password
             = (store1, Reply 200 (AuthJson token refreshToken e n r))"
  shows "\<exists>usr. token = generateToken rnd1 \<and> refreshToken = ''ref-'' @ generateToken rnd2 \<and>
           store1 = store(token \<mapsto> usr, refreshToken \<mapsto> usr) \<and>
           e = u_email usr \<and> n = u_name usr \<and> r = u_role usr \<and>
           find (\<lambda>u. Some (u_email u) = email \<and> Some (u_password u) = password) users
             = Some usr"
  using assms by (auto simp: login_def Let_def split: option.splits)

lemma token_not_ref: "generateToken a \<noteq> ''ref-'' @ generateToken b"
  by (simp add: generateToken_def)

lemma refresh_presented:
  assumes pr: "incoming = Some used \<or>
      (\<not> truthy incoming \<and> authorization = Some (''Bearer '' @ used))"
    and ne: "used \<noteq> []"
    and st: "store1 used = Some usr"
  shows "refresh rnd3 rnd4 store1 incoming authorization =
           ((store1(used := None))
              (generateToken rnd3 \<mapsto> usr, ''ref-'' @ generateToken rnd4 \<mapsto> usr),
            Reply 200 (AuthJson (generateToken rnd3) (''ref-'' @ generateToken rnd4)
              (u_email usr) (u_name usr) (u_role usr)))"
proof -
  have "(if truthy incoming then incoming else bearer authorization) = Some used"
    using pr
  proof
    assume "incoming = Some used"
    with ne show ?thesis by (simp add: truthy_def)
  next
    assume h: "\<not> truthy incoming \<and> authorization = Some (''Bearer '' @ used)"
    then have "bearer authorization = Some used"
      by (simp only: bearer_Bearer)
    with h show ?thesis by simp
  qed
  with st show ?thesis
    by (simp add: refresh_def Let_def propertyKey_def)
qed

text \<open>
  C4 (as amended). Take the pair of tokens that a successful login issues, both bound
  to the user whose credentials were given, and refresh with either of them, sent in
  the body or, the body having none, in the Authorization header. The refresh succeeds
  with status 200 and returns two newly drawn tokens, both bound in the store to the
  identity of the login. The presented token is the only
  binding removed: every other key of the store, the other token of the pair included,
  resolves as before, unless it is one of the two drawn tokens. Resolving the presented
  token fails exactly when neither drawn token is equal to it; nothing in the handler
  keeps a draw from repeating it.
\<close>

theorem refresh_rotation:
  assumes lg: "login rnd1 rnd2 store email password
                 = (store1, Reply 200 (AuthJson token refreshToken e n r))"
    and us: "used = token \<or> used = refreshToken"
    and pr: "incoming = Some used \<or>
               (\<not> truthy incoming \<and> authorization = Some (''Bearer '' @ used))"
    and rf: "refresh rnd3 rnd4 store1 incoming authorization = (store2, rep)"
  shows "store1 token
           = find (\<lambda>u. Some (u_email u) = email \<and> Some (u_password u) = password) users \<and>
         map_option u_email (store1 token) = Some e \<and>
         store1 refreshToken = store1 token \<and>
         rep = Reply 200 (AuthJson (generateToken rnd3) (''ref-'' @ generateToken rnd4) e n r) \<and>
         store2 (generateToken rnd3) = store1 token \<and>
         store2 (''ref-'' @ generateToken rnd4) = store1 token \<and>
         (store2 used = None \<longleftrightarrow>
            generateToken rnd3 \<noteq> used \<and> ''ref-'' @ generateToken rnd4 \<noteq> used) \<and>
         (\<forall>k. k \<noteq> used \<and> k \<noteq> generateToken rnd3 \<and> k \<noteq> ''ref-'' @ generateToken rnd4 \<longrightarrow>
            store2 k = store1 k) \<and>
         (used = refreshToken \<longrightarrow> store2 token = store1 token) \<and>
         (used = token \<longrightarrow> store2 refreshToken = store1 token)"
proof -
  from login_ok [OF lg] obtain usr where
    t: "token = generateToken rnd1" "refreshToken = ''ref-'' @ generateToken rnd2" and
    s1: "store1 = store(token \<mapsto> usr, refreshToken \<mapsto> usr)" and
    u: "e = u_email usr" "n = u_name usr" "r = u_role usr" and
    fd: "find (\<lambda>u. Some (u_email u) = email \<and> Some (u_password u) = password) users = Some usr"
    by blast
  have d: "token \<noteq> refreshToken"
    using t token_not_ref by simp
  have ne: "used \<noteq> []"
    using us t by (auto simp: generateToken_def)
  have r1: "store1 token = Some usr" "store1 refreshToken = Some usr"
    using s1 d by simp_all
  then have ru: "store1 used = Some usr"
    using us by auto
  from rf refresh_presented [where incoming = incoming and used = used and
      authorization = authorization and ?store1.0 = store1 and usr = usr and
      ?rnd3.0 = rnd3 and ?rnd4.0 = rnd4, OF pr ne ru]
  have s2: "store2 = (store1(used := None))
      (generateToken rnd3 \<mapsto> usr, ''ref-'' @ generateToken rnd4 \<mapsto> usr)"
    and rp: "rep = Reply 200 (AuthJson (generateToken rnd3) (''ref-'' @ generateToken rnd4)
      (u_email usr) (u_name usr) (u_role usr))"
    by simp_all
  have 0: "store1 token
      = find (\<lambda>u. Some (u_email u) = email \<and> Some (u_password u) = password) users"
    using r1 fd by simp
  have 1: "map_option u_email (store1 token) = Some e"
    using r1 u by simp
  have 2: "store1 refreshToken = store1 token"
    using r1 by simp
  have 3: "rep = Reply 200 (AuthJson (generateToken rnd3) (''ref-'' @ generateToken rnd4) e n r)"
    using rp u by simp
  have 4: "store2 (generateToken rnd3) = store1 token"
    using s2 r1 by simp
  have 5: "store2 (''ref-'' @ generateToken rnd4) = store1 token"
    using s2 r1 by simp
  have 6: "store2 used = None \<longleftrightarrow>
      generateToken rnd3 \<noteq> used \<and> ''ref-'' @ generateToken rnd4 \<noteq> used"
    using s2 by auto
  have 7: "\<forall>k. k \<noteq> used \<and> k \<noteq> generateToken rnd3 \<and> k \<noteq> ''ref-'' @ generateToken rnd4 \<longrightarrow>
      store2 k = store1 k"
    using s2 by simp
  have 8: "used = refreshToken \<longrightarrow> store2 token = store1 token"
    using s2 r1 d by simp
  have 9: "used = token \<longrightarrow> store2 refreshToken = store1 token"
    using s2 r1 d by simp
  show ?thesis
    by (intro conjI 0 1 2 3 4 5 6 7 8 9)
qed

lemma login_admin:
  "login ''k1a'' ''k2b'' Map.empty (Some ''admin@crestastream.com'') (Some ''admin123'')
     = (loggedIn, Reply 200 (AuthJson ''token-k1a'' ''ref-token-k2b''
          ''admin@crestastream.com'' ''Admin User'' ''admin''))"
  by (simp add: loggedIn_def login_def users_def generateToken_def Let_def)

lemma refresh_admin:
  "refresh ''k3c'' ''k4d'' loggedIn (Some ''ref-token-k2b'') None
     = (rotated, snd (refresh ''k3c'' ''k4d'' loggedIn (Some ''ref-token-k2b'') None))"
  by (simp add: rotated_def)

lemma refresh_admin_header:
  "refresh ''k3c'' ''k4d'' loggedIn None (Some ''Bearer token-k1a'')
     = (rotatedByHeader, snd (refresh ''k3c'' ''k4d'' loggedIn None (Some ''Bearer token-k1a'')))"
  by (simp add: rotatedByHeader_def)

theorem refresh_rotation_witness:
  "loggedIn ''token-k1a'' = Some admin \<and> loggedIn ''ref-token-k2b'' = Some admin \<and>
   snd (refresh ''k3c'' ''k4d'' loggedIn (Some ''ref-token-k2b'') None)
     = Reply 200 (AuthJson ''token-k3c'' ''ref-token-k4d''
         ''admin@crestastream.com'' ''Admin User'' ''admin'') \<and>
   rotated ''ref-token-k2b'' = None \<and>
   rotated ''token-k3c'' = Some admin \<and> rotated ''ref-token-k4d'' = Some admin \<and>
   rotated ''token-k1a'' = Some admin \<and>
   rotated ''token-of-another-user'' = loggedIn ''token-of-another-user'' \<and>
   rotatedByHeader ''token-k1a'' = None \<and>
   rotatedByHeader ''token-k3c'' = Some admin \<and>
   rotatedByHeader ''ref-token-k4d'' = Some admin \<and>
   rotatedByHeader ''ref-token-k2b'' = Some admin"
proof -
  have g: "generateToken ''k3c'' = ''token-k3c''"
    "''ref-'' @ generateToken ''k4d'' = ''ref-token-k4d''"
    by (simp_all add: generateToken_def)
  have l: "loggedIn ''token-k1a'' = Some admin" "loggedIn ''ref-token-k2b'' = Some admin"
    by (simp_all add: loggedIn_eq)
  have us: "''ref-token-k2b'' = ''token-k1a'' \<or> ''ref-token-k2b'' = ''ref-token-k2b''"
    by simp
  have pr: "Some ''ref-token-k2b'' = Some ''ref-token-k2b'' \<or>
      (\<not> truthy (Some ''ref-token-k2b'') \<and> None = Some (''Bearer '' @ ''ref-token-k2b''))"
    by simp
  have us': "''token-k1a'' = ''token-k1a'' \<or> ''token-k1a'' = ''ref-token-k2b''"
    by simp
  have pr': "None = Some ''token-k1a'' \<or>
      (\<not> truthy None \<and> Some ''Bearer token-k1a'' = Some (''Bearer '' @ ''token-k1a''))"
    by (simp add: truthy_def)
  note x = refresh_rotation [OF login_admin us pr refresh_admin, unfolded g]
  note y = refresh_rotation [OF login_admin us' pr' refresh_admin_header, unfolded g]
  from x have x3: "snd (refresh ''k3c'' ''k4d'' loggedIn (Some ''ref-token-k2b'') None)
       = Reply 200 (AuthJson ''token-k3c'' ''ref-token-k4d''
           ''admin@crestastream.com'' ''Admin User'' ''admin'')"
    by (elim conjE)
  from x have x4: "rotated ''token-k3c'' = loggedIn ''token-k1a''"
    by (elim conjE)
  from x have x5: "rotated ''ref-token-k4d'' = loggedIn ''token-k1a''"
    by (elim conjE)
  from x have x6: "rotated ''ref-token-k2b'' = None \<longleftrightarrow>
      ''token-k3c'' \<noteq> ''ref-token-k2b'' \<and> ''ref-token-k4d'' \<noteq> ''ref-token-k2b''"
    by (elim conjE)
  from x have x7: "\<forall>k. k \<noteq> ''ref-token-k2b'' \<and> k \<noteq> ''token-k3c'' \<and> k \<noteq> ''ref-token-k4d'' \<longrightarrow>
      rotated k = loggedIn k"
    by (elim conjE)
  from x6 have a: "rotated ''ref-token-k2b'' = None"
    by simp
  from x7 have b: "rotated ''token-k1a'' = loggedIn ''token-k1a''"
    "rotated ''token-of-another-user'' = loggedIn ''token-of-another-user''"
    by simp_all
  from y have y4: "rotatedByHeader ''token-k3c'' = loggedIn ''token-k1a''"
    by (elim conjE)
  from y have y5: "rotatedByHeader ''ref-token-k4d'' = loggedIn ''token-k1a''"
    by (elim conjE)
  from y have y6: "rotatedByHeader ''token-k1a'' = None \<longleftrightarrow>
      ''token-k3c'' \<noteq> ''token-k1a'' \<and> ''ref-token-k4d'' \<noteq> ''token-k1a''"
    by (elim conjE)
  from y have y9: "''token-k1a'' = ''token-k1a'' \<longrightarrow>
      rotatedByHeader ''ref-token-k2b'' = loggedIn ''token-k1a''"
    by (elim conjE)
  from y6 have c: "rotatedByHeader ''token-k1a'' = None"
    by simp
  from y9 have d: "rotatedByHeader ''ref-token-k2b'' = loggedIn ''token-k1a''"
    by simp
  from l x3 x4 x5 a b y4 y5 c d show ?thesis
    by simp
qed

text \<open>
  The claim as first stated fails: after a login and a refresh with the refresh token,
  the access token of the login still resolves to the administrator.
\<close>

theorem refresh_keeps_access_token_counterexample:
  "loggedIn ''token-k1a'' = Some admin \<and> loggedIn ''ref-token-k2b'' = Some admin \<and>
   statusCode (snd (refresh ''k3c'' ''k4d'' loggedIn (Some ''ref-token-k2b'') None)) = 200 \<and>
   rotated ''ref-token-k2b'' = None \<and> rotated ''token-k1a'' = Some admin"
proof -
  have r: "refresh ''k3c'' ''k4d'' loggedIn (Some ''ref-token-k2b'') None =
      ((loggedIn(''ref-token-k2b'' := None))(''token-k3c'' \<mapsto> admin, ''ref-token-k4d'' \<mapsto> admin),
       Reply 200 (AuthJson ''token-k3c'' ''ref-token-k4d''
         ''admin@crestastream.com'' ''Admin User'' ''admin''))"
    by (simp add: refresh_def Let_def truthy_def propertyKey_def loggedIn_eq generateToken_def
        admin_def)
  show ?thesis
    by (simp add: rotated_def r) (simp add: loggedIn_eq)
qed

section \<open>Properties of the metrics\<close>

text \<open>
  C1. The claim is that the metrics of the empty store are defined values, with
  averageAiScore 0 and resolutionRate 0. The code does not do this. Deleting the five
  seed conversations empties the store, and on the empty store every division of
  \<^verbatim>\<open>calculateMetrics\<close> is \<^verbatim>\<open>0 / 0\<close>: the three averages are NaN, which the reply
  carries as \<^verbatim>\<open>null\<close>. The counts are 0.
\<close>

theorem calculateMetrics_empty_store:
  "emptiedStore = [] \<and>
   calculateMetrics fl emptiedStore
     = \<lparr> totalConversations = 0, positiveCount = 0, negativeCount = 0, neutralCount = 0,
         averageAiScore = NaN, resolutionRate = NaN, averageHandleTime = NaN \<rparr> \<and>
   averageAiScore (calculateMetrics fl emptiedStore) \<noteq> Finite 0 \<and>
   resolutionRate (calculateMetrics fl emptiedStore) \<noteq> Finite 0"
proof -
  have e: "emptiedStore = []"
    by code_simp
  have m: "calculateMetrics fl [] =
      \<lparr> totalConversations = 0, positiveCount = 0, negativeCount = 0, neutralCount = 0,
        averageAiScore = NaN, resolutionRate = NaN, averageHandleTime = NaN \<rparr>"
    by (simp add: calculateMetrics_def js_divide_def js_times_def mathRound_def)
  show ?thesis
    by (simp add: e m)
qed

end
